theory Spec2Isabelle
  imports Complex_Main "HOL-Library.Sublist"
begin

section \<open>Table extraction: boxes, ingestion, skew correction, clustering, grid\<close>

text \<open>
  A shallow embedding of \<^verbatim>\<open>table_utilities.py\<close> and of the grid computation of
  \<^verbatim>\<open>table_reconstruction.py\<close>. Python floats are idealised as real numbers, so
  \<^verbatim>\<open>** 0.5\<close> is \<open>sqrt\<close>, \<^verbatim>\<open>math.atan\<close> is \<open>arctan\<close>, and the literal
  \<^verbatim>\<open>1e-6\<close> is the real number \<open>1 / 1000000\<close>. Python strings are modelled as
  \<open>string\<close>, and \<^verbatim>\<open>str.lower\<close> acts on the ASCII letters. Reading the JSON file is
  left out: \<open>load_ocr_json\<close> starts from the list \<^verbatim>\<open>raw["blocks"]\<close>. Of
  \<^verbatim>\<open>plot_table_grid_auto\<close> the model keeps what decides the grid (the edges and the
  item rows) and whether the call fails; the calls that draw on the axes are left out.
\<close>

subsection \<open>Records of the OCR output, and errors\<close>

type_synonym point = "real \<times> real"

text \<open>
  One record of the OCR output (\<^verbatim>\<open>blk\<close> in \<^verbatim>\<open>load_ocr_json\<close>): a dictionary
  in which each of the keys \<^verbatim>\<open>text\<close>, \<^verbatim>\<open>coords\<close>, \<^verbatim>\<open>x0\<close>, \<^verbatim>\<open>y0\<close>,
  \<^verbatim>\<open>x1\<close>, \<^verbatim>\<open>y1\<close> is present (\<open>Some\<close>) or absent (\<open>None\<close>).
\<close>

record block =
  blk_text :: "string option"
  blk_coords :: "point list option"
  blk_x0 :: "real option"
  blk_y0 :: "real option"
  blk_x1 :: "real option"
  blk_y1 :: "real option"

text \<open>
  Every exception the code raises is a Python \<^verbatim>\<open>ValueError\<close>; they differ in their
  message only:
  \<^item> \<open>Requires4Corners\<close>: \<^verbatim>\<open>ValueError("OCRBox requires 4 corner coordinates")\<close>;
  \<^item> \<open>UnrecognizedBlock blk\<close>: \<^verbatim>\<open>ValueError(f"Unrecognized OCR block format: {blk}")\<close>;
  \<^item> \<open>EmptySequence f\<close>: the built-in \<^verbatim>\<open>min\<close> or \<^verbatim>\<open>max\<close> (named by \<open>f\<close>)
    applied to an empty sequence.
\<close>

datatype message = Requires4Corners | UnrecognizedBlock block | EmptySequence string

datatype error = ValueError message

subsection \<open>The box model (\<^verbatim>\<open>OCRBox\<close>)\<close>

text \<open>
  The constructor is the only producer of boxes and no code assigns to a box's fields,
  so a box holds its text and its four corners, in the order top-left, top-right,
  bottom-right, bottom-left; \<open>coords\<close> is the list the Python object stores.
\<close>

record ocrbox =
  box_text :: string
  c0 :: point
  c1 :: point
  c2 :: point
  c3 :: point

definition coords :: "ocrbox \<Rightarrow> point list" where
  "coords b = [c0 b, c1 b, c2 b, c3 b]"

definition OCRBox :: "string \<Rightarrow> point list \<Rightarrow> error + ocrbox" where
  "OCRBox t cs =
     (if length cs \<noteq> 4 then Inl (ValueError Requires4Corners)
      else Inr \<lparr>box_text = t, c0 = cs ! 0, c1 = cs ! 1, c2 = cs ! 2, c3 = cs ! 3\<rparr>)"

definition center :: "ocrbox \<Rightarrow> point" where
  "center b =
     (let xs = map fst (coords b); ys = map snd (coords b)
      in (sum_list xs / 4, sum_list ys / 4))"

definition width :: "ocrbox \<Rightarrow> real" where
  "width b =
     (case (c0 b, c1 b) of ((x0, y0), (x1, y1)) \<Rightarrow> sqrt ((x1 - x0)\<^sup>2 + (y1 - y0)\<^sup>2))"

definition height :: "ocrbox \<Rightarrow> real" where
  "height b =
     (case (c0 b, c3 b) of ((x0, y0), (x3, y3)) \<Rightarrow> sqrt ((x3 - x0)\<^sup>2 + (y3 - y0)\<^sup>2))"

definition slope :: "ocrbox \<Rightarrow> real" where
  "slope b =
     (case (c0 b, c1 b) of ((x0, y0), (x1, y1)) \<Rightarrow>
        let dx = max (x1 - x0) (1 / 1000000); dy = y1 - y0 in dy / dx)"

subsection \<open>Sequencing of fallible steps\<close>

definition bind_err :: "error + 'a \<Rightarrow> ('a \<Rightarrow> error + 'b) \<Rightarrow> error + 'b" where
  "bind_err r f = (case r of Inl e \<Rightarrow> Inl e | Inr v \<Rightarrow> f v)"

text \<open>
  A \<^verbatim>\<open>for\<close> loop that appends \<open>f x\<close> to a result list for each \<open>x\<close> in turn; the
  first exception leaves the loop and the function.
\<close>

fun append_each :: "('a \<Rightarrow> error + 'b) \<Rightarrow> 'a list \<Rightarrow> 'b list \<Rightarrow> error + 'b list" where
  "append_each f [] acc = Inr acc"
| "append_each f (x # xs) acc =
     (case f x of Inl e \<Rightarrow> Inl e | Inr y \<Rightarrow> append_each f xs (acc @ [y]))"

subsection \<open>Ingestion (\<^verbatim>\<open>load_ocr_json\<close>)\<close>

text \<open>The body of the loop over \<^verbatim>\<open>raw["blocks"]\<close>, for one record.\<close>

definition load_block :: "block \<Rightarrow> error + ocrbox" where
  "load_block blk =
     (let text = (case blk_text blk of Some t \<Rightarrow> t | None \<Rightarrow> []) in
      if blk_coords blk \<noteq> None \<and> length (the (blk_coords blk)) = 4 then
        OCRBox text (the (blk_coords blk))
      else if blk_x0 blk \<noteq> None \<and> blk_y0 blk \<noteq> None \<and>
              blk_x1 blk \<noteq> None \<and> blk_y1 blk \<noteq> None then
        (let x0 = the (blk_x0 blk); y0 = the (blk_y0 blk);
             x1 = the (blk_x1 blk); y1 = the (blk_y1 blk)
         in OCRBox text [(x0, y0), (x1, y0), (x1, y1), (x0, y1)])
      else Inl (ValueError (UnrecognizedBlock blk)))"

definition load_ocr_json :: "block list \<Rightarrow> error + ocrbox list" where
  "load_ocr_json blocks = append_each load_block blocks []"

subsection \<open>Quadrant-based slope correction (\<^verbatim>\<open>correct_slope\<close>)\<close>

definition get_quadrant :: "real \<Rightarrow> real \<Rightarrow> nat" where
  "get_quadrant cx cy =
     (if cx < 1 / 2 \<and> cy < 1 / 2 then 0
      else if cx \<ge> 1 / 2 \<and> cy < 1 / 2 then 1
      else if cx < 1 / 2 \<and> cy \<ge> 1 / 2 then 2
      else 3)"

definition quadrant_of :: "ocrbox \<Rightarrow> nat" where
  "quadrant_of b = (case center b of (cx, cy) \<Rightarrow> get_quadrant cx cy)"

text \<open>
  The two dictionaries \<^verbatim>\<open>slope_sums\<close> and \<^verbatim>\<open>weight_sums\<close>, both \<open>0\<close> at every
  quadrant at first, and the loop that accumulates them.
\<close>

definition accumulate ::
  "ocrbox \<Rightarrow> (nat \<Rightarrow> real) \<times> (nat \<Rightarrow> real) \<Rightarrow> (nat \<Rightarrow> real) \<times> (nat \<Rightarrow> real)" where
  "accumulate b = (\<lambda>(slope_sums, weight_sums).
     let q = quadrant_of b
     in (slope_sums(q := slope_sums q + slope b * width b),
         weight_sums(q := weight_sums q + width b)))"

definition slope_weight_sums :: "ocrbox list \<Rightarrow> (nat \<Rightarrow> real) \<times> (nat \<Rightarrow> real)" where
  "slope_weight_sums boxes = fold accumulate boxes (\<lambda>q. 0, \<lambda>q. 0)"

definition avg_slopes :: "ocrbox list \<Rightarrow> nat \<Rightarrow> real" where
  "avg_slopes boxes q =
     (case slope_weight_sums boxes of (slope_sums, weight_sums) \<Rightarrow>
        if weight_sums q > 0 then slope_sums q / weight_sums q else 0)"

text \<open>The estimated skew angle of a quadrant: \<^verbatim>\<open>math.atan(avg_slopes[q])\<close>.\<close>

definition skew_angle :: "ocrbox list \<Rightarrow> nat \<Rightarrow> real" where
  "skew_angle boxes q = arctan (avg_slopes boxes q)"

definition rotate_corner :: "real \<Rightarrow> point \<Rightarrow> point" where
  "rotate_corner angle = (\<lambda>(x, y).
     let cos_a = cos (- angle); sin_a = sin (- angle);
         x_shift = x - 1 / 2; y_shift = y - 1 / 2;
         x_rot = x_shift * cos_a - y_shift * sin_a;
         y_rot = x_shift * sin_a + y_shift * cos_a
     in (x_rot + 1 / 2, y_rot + 1 / 2))"

definition correct_box :: "ocrbox list \<Rightarrow> ocrbox \<Rightarrow> error + ocrbox" where
  "correct_box boxes b =
     (let angle = skew_angle boxes (quadrant_of b);
          new_coords = map (rotate_corner angle) (coords b)
      in OCRBox (box_text b) new_coords)"

definition correct_slope :: "ocrbox list \<Rightarrow> error + ocrbox list" where
  "correct_slope boxes = append_each (correct_box boxes) boxes []"

subsection \<open>Row clustering (\<^verbatim>\<open>cluster_rows\<close>)\<close>

definition mean :: "real list \<Rightarrow> real" where
  "mean xs = sum_list xs / real (length xs)"

text \<open>The loop over \<^verbatim>\<open>y_values[1:]\<close>; its state is \<^verbatim>\<open>(clustered, current_group)\<close>.\<close>

fun cluster_loop ::
  "real \<Rightarrow> real list \<Rightarrow> real list \<times> real list \<Rightarrow> real list \<times> real list" where
  "cluster_loop tol [] (clustered, current_group) = (clustered, current_group)"
| "cluster_loop tol (y # ys) (clustered, current_group) =
     (if \<bar>y - mean current_group\<bar> \<le> tol
      then cluster_loop tol ys (clustered, current_group @ [y])
      else cluster_loop tol ys (clustered @ [mean current_group], [y]))"

definition cluster_rows :: "real list \<Rightarrow> real \<Rightarrow> real list" where
  "cluster_rows y_values tol =
     (if y_values = [] then []
      else case cluster_loop tol (tl y_values) ([], [hd y_values]) of
             (clustered, current_group) \<Rightarrow> clustered @ [mean current_group])"

text \<open>
  The clustering as the specification words it: the groups of one greedy pass, in
  order, and the mean of each. \<open>greedy_groups tol g ys\<close> are the groups formed from
  the open group \<open>g\<close> and the values \<open>ys\<close> still to come.
\<close>

fun greedy_groups :: "real \<Rightarrow> real list \<Rightarrow> real list \<Rightarrow> real list list" where
  "greedy_groups tol g [] = [g]"
| "greedy_groups tol g (y # ys) =
     (if \<bar>y - mean g\<bar> \<le> tol then greedy_groups tol (g @ [y]) ys
      else g # greedy_groups tol [y] ys)"

definition cluster_spec :: "real list \<Rightarrow> real \<Rightarrow> real list" where
  "cluster_spec vs tol =
     (case vs of [] \<Rightarrow> [] | v # rest \<Rightarrow> map mean (greedy_groups tol [v] rest))"

subsection \<open>Label matching\<close>

definition lower_char :: "char \<Rightarrow> char" where
  "lower_char c =
     (case map_of (zip ''ABCDEFGHIJKLMNOPQRSTUVWXYZ'' ''abcdefghijklmnopqrstuvwxyz'') c of
        Some d \<Rightarrow> d | None \<Rightarrow> c)"

definition lower :: "string \<Rightarrow> string" where
  "lower s = map lower_char s"

text \<open>Python's \<^verbatim>\<open>a in b\<close> on strings: \<open>a\<close> occurs in \<open>b\<close> as a contiguous run.\<close>

fun str_in :: "string \<Rightarrow> string \<Rightarrow> bool" where
  "str_in a [] = (a = [])"
| "str_in a (c # cs) = (prefix a (c # cs) \<or> str_in a cs)"

text \<open>
  The header boxes, from which \<^verbatim>\<open>plot_table_grid\<close> and \<^verbatim>\<open>plot_table_grid_auto\<close> take
  the column edges:
  \<^verbatim>\<open>[b for b in boxes if b.text.lower() and
        any(b.text.lower() in h.lower() for h in headers)]\<close>
\<close>

definition header_boxes :: "ocrbox list \<Rightarrow> string list \<Rightarrow> ocrbox list" where
  "header_boxes boxes headers =
     filter (\<lambda>b. lower (box_text b) \<noteq> [] \<and>
                 list_ex (\<lambda>h. str_in (lower (box_text b)) (lower h)) headers) boxes"

text \<open>
  The test that selects the boxes of \<^verbatim>\<open>header_top\<close> (with the header labels) and of
  \<^verbatim>\<open>footer_bottom\<close> (with the footer labels):
  \<^verbatim>\<open>any(h.lower() in b.text.lower() for h in labels)\<close>
\<close>

definition has_label :: "string list \<Rightarrow> ocrbox \<Rightarrow> bool" where
  "has_label labels b = list_ex (\<lambda>h. str_in (lower h) (lower (box_text b))) labels"

subsection \<open>Grid reconstruction (\<^verbatim>\<open>plot_table_grid_auto\<close>)\<close>

definition py_min :: "real list \<Rightarrow> error + real" where
  "py_min xs = (case xs of [] \<Rightarrow> Inl (ValueError (EmptySequence ''min''))
                | x # rest \<Rightarrow> Inr (fold min rest x))"

definition py_max :: "real list \<Rightarrow> error + real" where
  "py_max xs = (case xs of [] \<Rightarrow> Inl (ValueError (EmptySequence ''max''))
                | x # rest \<Rightarrow> Inr (fold max rest x))"

text \<open>
  \<^verbatim>\<open>round(x, ndigits)\<close> on a float rounds the exact value to the nearest multiple of
  \<open>10 ^ - ndigits\<close>, a tie going to the even multiple.
\<close>

definition py_round :: "real \<Rightarrow> nat \<Rightarrow> real" where
  "py_round x ndigits =
     (let s = x * 10 ^ ndigits; f = \<lfloor>s\<rfloor>; r = s - of_int f;
          n = (if r < 1 / 2 then f else if r > 1 / 2 then f + 1
               else if even f then f else f + 1)
      in of_int n / 10 ^ ndigits)"

text \<open>\<^verbatim>\<open>np.linspace(start, stop, num)\<close>: \<open>num\<close> evenly spaced samples, both ends included.\<close>

definition linspace :: "real \<Rightarrow> real \<Rightarrow> nat \<Rightarrow> real list" where
  "linspace start stop num =
     (if num = 1 then [start]
      else map (\<lambda>i. start + real i * ((stop - start) / real (num - 1))) [0..<num])"

text \<open>
  The grid the function computes before it draws: the column edges, the row edges and the
  clustered item rows. The drawing calls and the placement of each text at its nearest
  cell centre follow and change none of these.
\<close>

record grid =
  col_edges :: "real list"
  row_edges :: "real list"
  item_rows :: "real list"

definition box_min_x :: "ocrbox \<Rightarrow> real" where
  "box_min_x b = Min (set (map fst (coords b)))"

definition box_max_x :: "ocrbox \<Rightarrow> real" where
  "box_max_x b = Max (set (map fst (coords b)))"

definition column_edges :: "ocrbox list \<Rightarrow> string list \<Rightarrow> real \<Rightarrow> real \<Rightarrow> real list" where
  "column_edges boxes headers x_min x_max =
     (let hbs = header_boxes boxes headers in
      if hbs \<noteq> [] then
        (let lefts = map box_min_x hbs;
             right = Max (set (map box_max_x hbs))
         in sort (lefts @ [right]))
      else linspace x_min x_max (length headers + 1))"

definition raw_item_rows :: "ocrbox list \<Rightarrow> real \<Rightarrow> real \<Rightarrow> real list" where
  "raw_item_rows boxes header_top footer_bottom =
     sort (remdups (map (\<lambda>b. py_round (snd (center b)) 3)
       (filter (\<lambda>b. header_top * (12 / 10) < snd (center b) \<and>
                    snd (center b) < footer_bottom * (8 / 10)) boxes)))"

definition plot_table_grid_auto ::
  "ocrbox list \<Rightarrow> string list \<Rightarrow> string list \<Rightarrow> error + grid" where
  "plot_table_grid_auto boxes headers footers =
     (let all_x = concat (map (\<lambda>b. map fst (coords b)) boxes);
          all_y = concat (map (\<lambda>b. map snd (coords b)) boxes)
      in
      bind_err (py_min all_x) (\<lambda>x_min.
      bind_err (py_max all_x) (\<lambda>x_max.
      bind_err (py_min all_y) (\<lambda>y_min.
      bind_err (py_max all_y) (\<lambda>y_max.
      let col_edges = column_edges boxes headers x_min x_max in
      bind_err (py_min (concat (map (\<lambda>b. map snd (coords b))
                  (filter (has_label headers) boxes)))) (\<lambda>header_top.
      bind_err (py_max (concat (map (\<lambda>b. map snd (coords b))
                  (filter (has_label footers) boxes)))) (\<lambda>footer_bottom.
      let item_rows = cluster_rows (raw_item_rows boxes header_top footer_bottom) (2 / 100);
          n_items = length item_rows;
          n_rows = 1 + n_items + 1;
          row_edges = linspace header_top footer_bottom (n_rows + 1)
      in Inr \<lparr>col_edges = col_edges, row_edges = row_edges, item_rows = item_rows\<rparr>)))))))"

subsection \<open>A sample table\<close>

text \<open>
  Boxes of a small table, used in the examples below: two header cells, a header cell in
  which two labels were read as one box, an item cell, and two footer cells.
\<close>

definition units_header :: ocrbox where
  "units_header = \<lparr>box_text = ''Units'', c0 = (1 / 10, 1 / 10), c1 = (1 / 5, 1 / 10),
     c2 = (1 / 5, 13 / 100), c3 = (1 / 10, 13 / 100)\<rparr>"

definition total_header :: ocrbox where
  "total_header = \<lparr>box_text = ''Total'', c0 = (3 / 10, 1 / 10), c1 = (2 / 5, 1 / 10),
     c2 = (2 / 5, 13 / 100), c3 = (3 / 10, 13 / 100)\<rparr>"

definition merged_header :: ocrbox where
  "merged_header = \<lparr>box_text = ''Units Pieces'', c0 = (1 / 10, 1 / 10), c1 = (2 / 5, 1 / 10),
     c2 = (2 / 5, 13 / 100), c3 = (1 / 10, 13 / 100)\<rparr>"

definition item_box :: ocrbox where
  "item_box = \<lparr>box_text = ''7'', c0 = (1 / 10, 3 / 10), c1 = (1 / 5, 3 / 10),
     c2 = (1 / 5, 17 / 50), c3 = (1 / 10, 17 / 50)\<rparr>"

definition total_footer :: ocrbox where
  "total_footer = \<lparr>box_text = ''Total'', c0 = (1 / 10, 13 / 20), c1 = (1 / 5, 13 / 20),
     c2 = (1 / 5, 7 / 10), c3 = (1 / 10, 7 / 10)\<rparr>"

definition charge_footer :: ocrbox where
  "charge_footer = \<lparr>box_text = ''Total Charge'', c0 = (1 / 10, 13 / 20), c1 = (3 / 10, 13 / 20),
     c2 = (3 / 10, 7 / 10), c3 = (1 / 10, 7 / 10)\<rparr>"

section \<open>Theorems\<close>

subsection \<open>The box constructor\<close>

lemma list4_nth: "length cs = 4 \<Longrightarrow> [cs ! 0, cs ! 1, cs ! 2, cs ! 3] = cs"
proof -
  assume len: "length cs = 4"
  then obtain a b c d where "cs = [a, b, c, d]"
    by (auto simp: length_Suc_conv numeral_eq_Suc)
  then show ?thesis by simp
qed

text \<open>
  C7. Constructing a box from a coordinate sequence whose length is not 4 fails with the
  \<^verbatim>\<open>ValueError\<close> of the constructor and yields no box; a sequence of length exactly 4
  constructs a box that holds the given text and exactly the given coordinates.
\<close>

theorem OCRBox_validates:
  "(length cs \<noteq> 4 \<longrightarrow> OCRBox t cs = Inl (ValueError Requires4Corners)) \<and>
   (length cs = 4 \<longrightarrow> (\<exists>b. OCRBox t cs = Inr b \<and> box_text b = t \<and> coords b = cs))"
  using list4_nth [of cs] by (auto simp: OCRBox_def coords_def)

theorem OCRBox_validates_witness:
  "OCRBox ''Units'' [(0, 0), (1, 0), (1, 1)] = Inl (ValueError Requires4Corners) \<and>
   (\<exists>b. OCRBox ''Units'' [(0, 0), (1, 0), (1, 1), (0, 1)] = Inr b \<and> box_text b = ''Units'' \<and>
        coords b = [(0, 0), (1, 0), (1, 1), (0, 1)])"
  using OCRBox_validates [of "[(0, 0), (1, 0), (1, 1)]" "''Units''"]
    OCRBox_validates [of "[(0, 0), (1, 0), (1, 1), (0, 1)]" "''Units''"]
  by simp

subsection \<open>The slope of a box\<close>

text \<open>
  C9. The slope of every box is the rise \<open>y1 - y0\<close> of its top edge divided by
  \<open>max (x1 - x0) 1e-6\<close>. The divisor is at least \<open>1e-6\<close>, so it is never zero, and it is
  exactly \<open>1e-6\<close> when the run is zero or negative.
\<close>

theorem slope_floor:
  "slope b = (snd (c1 b) - snd (c0 b)) / max (fst (c1 b) - fst (c0 b)) (1 / 1000000) \<and>
   0 < max (fst (c1 b) - fst (c0 b)) (1 / 1000000) \<and>
   (fst (c1 b) - fst (c0 b) \<le> 0 \<longrightarrow>
      slope b = (snd (c1 b) - snd (c0 b)) / (1 / 1000000))"
  by (auto simp: slope_def Let_def max_def split: prod.splits)

theorem slope_floor_witness:
  "slope \<lparr>box_text = ''a'', c0 = (1, 0), c1 = (1, 2), c2 = (1, 3), c3 = (1, 1)\<rparr> = 2000000"
  using slope_floor [of "\<lparr>box_text = ''a'', c0 = (1, 0), c1 = (1, 2), c2 = (1, 3), c3 = (1, 1)\<rparr>"]
  by simp

subsection \<open>Ingestion\<close>

lemma append_each_Inr:
  "(\<forall>x\<in>set xs. \<exists>y. f x = Inr y) \<Longrightarrow> append_each f xs acc = Inr (acc @ map (\<lambda>x. projr (f x)) xs)"
  by (induction xs arbitrary: acc) auto

lemma append_each_Inl:
  "(\<forall>x\<in>set pre. \<exists>y. f x = Inr y) \<Longrightarrow> f x = Inl e \<Longrightarrow> append_each f (pre @ x # post) acc = Inl e"
  by (induction pre arbitrary: acc) auto

lemma load_block_Inl_iff:
  "load_block blk = Inl e \<longleftrightarrow>
     e = ValueError (UnrecognizedBlock blk) \<and>
     \<not> (\<exists>cs. blk_coords blk = Some cs \<and> length cs = 4) \<and>
     (blk_x0 blk = None \<or> blk_y0 blk = None \<or> blk_x1 blk = None \<or> blk_y1 blk = None)"
  by (auto simp: load_block_def OCRBox_def Let_def)

text \<open>
  C6. If some record of a batch has neither a \<^verbatim>\<open>coords\<close> entry of length 4 nor all
  four keys \<^verbatim>\<open>x0\<close>, \<^verbatim>\<open>y0\<close>, \<^verbatim>\<open>x1\<close>, \<^verbatim>\<open>y1\<close>, then loading the batch fails
  with the \<^verbatim>\<open>ValueError\<close> whose message carries the first such record, and no list of
  boxes is returned.
\<close>

theorem load_aborts_batch:
  assumes "\<exists>blk\<in>set blocks.
             \<not> (\<exists>cs. blk_coords blk = Some cs \<and> length cs = 4) \<and>
             (blk_x0 blk = None \<or> blk_y0 blk = None \<or> blk_x1 blk = None \<or> blk_y1 blk = None)"
  shows "\<exists>pre blk post. blocks = pre @ blk # post \<and>
           \<not> (\<exists>cs. blk_coords blk = Some cs \<and> length cs = 4) \<and>
           (blk_x0 blk = None \<or> blk_y0 blk = None \<or> blk_x1 blk = None \<or> blk_y1 blk = None) \<and>
           load_ocr_json blocks = Inl (ValueError (UnrecognizedBlock blk)) \<and>
           (\<forall>boxes. load_ocr_json blocks \<noteq> Inr boxes)"
proof -
  define bad where "bad = (\<lambda>blk :: block. \<not> (\<exists>cs. blk_coords blk = Some cs \<and> length cs = 4) \<and>
             (blk_x0 blk = None \<or> blk_y0 blk = None \<or> blk_x1 blk = None \<or> blk_y1 blk = None))"
  have rejects: "load_block b = Inl (ValueError (UnrecognizedBlock b))" if "bad b" for b
    using that unfolding bad_def load_block_Inl_iff by simp
  have accepts: "\<exists>y. load_block b = Inr y" if "\<not> bad b" for b
  proof (cases "load_block b")
    case (Inl e)
    then have "bad b" unfolding bad_def load_block_Inl_iff by simp
    with that show ?thesis by simp
  next
    case (Inr y)
    then show ?thesis by simp
  qed
  from assms have "\<exists>blk\<in>set blocks. bad blk"
    unfolding bad_def .
  then obtain pre blk post where
    split: "blocks = pre @ blk # post" and bad: "bad blk" and good: "\<forall>b\<in>set pre. \<not> bad b"
    using split_list_first_prop [of blocks bad] by blast
  have "\<forall>b\<in>set pre. \<exists>y. load_block b = Inr y"
    using good accepts by blast
  then have fails: "load_ocr_json blocks = Inl (ValueError (UnrecognizedBlock blk))"
    unfolding load_ocr_json_def split using rejects [OF bad] by (rule append_each_Inl)
  have "\<not> (\<exists>cs. blk_coords blk = Some cs \<and> length cs = 4) \<and>
        (blk_x0 blk = None \<or> blk_y0 blk = None \<or> blk_x1 blk = None \<or> blk_y1 blk = None)"
    using bad unfolding bad_def .
  moreover have "\<forall>boxes. load_ocr_json blocks \<noteq> Inr boxes"
    using fails by simp
  ultimately show ?thesis
    using split fails by blast
qed

theorem load_aborts_batch_witness:
  "load_ocr_json
     [\<lparr>blk_text = Some ''Units'', blk_coords = Some [(0, 0), (1, 0), (1, 1), (0, 1)],
        blk_x0 = None, blk_y0 = None, blk_x1 = None, blk_y1 = None\<rparr>,
      \<lparr>blk_text = Some ''Nails'', blk_coords = None,
        blk_x0 = Some 0, blk_y0 = Some 0, blk_x1 = Some 1, blk_y1 = None\<rparr>,
      \<lparr>blk_text = None, blk_coords = None,
        blk_x0 = Some 0, blk_y0 = Some 0, blk_x1 = Some 1, blk_y1 = Some 1\<rparr>]
   = Inl (ValueError (UnrecognizedBlock
      \<lparr>blk_text = Some ''Nails'', blk_coords = None,
        blk_x0 = Some 0, blk_y0 = Some 0, blk_x1 = Some 1, blk_y1 = None\<rparr>))"
  (is "load_ocr_json ?blocks = Inl (ValueError (UnrecognizedBlock ?bad))")
proof -
  have h: "\<exists>blk\<in>set ?blocks.
             \<not> (\<exists>cs. blk_coords blk = Some cs \<and> length cs = 4) \<and>
             (blk_x0 blk = None \<or> blk_y0 blk = None \<or> blk_x1 blk = None \<or> blk_y1 blk = None)"
    by simp
  from load_aborts_batch [OF h] obtain blk where
    fails: "load_ocr_json ?blocks = Inl (ValueError (UnrecognizedBlock blk))"
    by blast
  have "load_ocr_json ?blocks = Inl (ValueError (UnrecognizedBlock ?bad))"
    by (simp add: load_ocr_json_def load_block_def OCRBox_def)
  with fails show ?thesis by simp
qed



subsection \<open>Skew estimation and correction\<close>

lemma fold_accumulate:
  "fold accumulate boxes (ss, ws) =
     (\<lambda>q. ss q + sum_list (map (\<lambda>b. slope b * width b) (filter (\<lambda>b. quadrant_of b = q) boxes)),
      \<lambda>q. ws q + sum_list (map width (filter (\<lambda>b. quadrant_of b = q) boxes)))"
  by (induction boxes arbitrary: ss ws) (auto simp: accumulate_def Let_def fun_eq_iff)

lemma skew_angle_eq:
  "skew_angle boxes q =
     (if sum_list (map width (filter (\<lambda>b. quadrant_of b = q) boxes)) > 0
      then arctan (sum_list (map (\<lambda>b. slope b * width b) (filter (\<lambda>b. quadrant_of b = q) boxes))
                   / sum_list (map width (filter (\<lambda>b. quadrant_of b = q) boxes)))
      else 0)"
  by (simp add: skew_angle_def avg_slopes_def slope_weight_sums_def fold_accumulate)

text \<open>
  C4. The estimated skew angle of a quadrant is the arc tangent of the sum of
  \<open>slope * width\<close> over the boxes centred in it divided by the sum of their widths, when
  that sum of widths is positive, and \<open>0\<close> otherwise, so also for a quadrant with no
  box. A quadrant holding exactly two boxes, of widths 1 and 3 and slopes \<open>s1\<close> and
  \<open>s2\<close>, has the angle \<open>arctan ((s1 * 1 + s2 * 3) / 4)\<close>.
\<close>

theorem skew_angle_weighted:
  "skew_angle boxes q =
     (if sum_list (map width (filter (\<lambda>b. quadrant_of b = q) boxes)) > 0
      then arctan (sum_list (map (\<lambda>b. slope b * width b) (filter (\<lambda>b. quadrant_of b = q) boxes))
                   / sum_list (map width (filter (\<lambda>b. quadrant_of b = q) boxes)))
      else 0) \<and>
   (filter (\<lambda>b. quadrant_of b = q) boxes = [] \<longrightarrow> skew_angle boxes q = 0) \<and>
   ((filter (\<lambda>b. quadrant_of b = q) boxes = [b1, b2] \<or>
     filter (\<lambda>b. quadrant_of b = q) boxes = [b2, b1]) \<and> width b1 = 1 \<and> width b2 = 3 \<longrightarrow>
      skew_angle boxes q = arctan ((slope b1 * 1 + slope b2 * 3) / 4))"
  by (auto simp: skew_angle_eq add.commute)

lemma sqrt9: "sqrt 9 = 3"
  using real_sqrt_abs [of 3] by simp

theorem skew_angle_weighted_witness:
  "skew_angle
     [\<lparr>box_text = ''a'', c0 = (1, 1), c1 = (8 / 5, 9 / 5), c2 = (8 / 5, 2), c3 = (1, 6 / 5)\<rparr>,
      \<lparr>box_text = ''b'', c0 = (0, 0), c1 = (1 / 5, 0), c2 = (1 / 5, 1 / 5), c3 = (0, 1 / 5)\<rparr>,
      \<lparr>box_text = ''c'', c0 = (1, 1), c1 = (4, 1), c2 = (4, 2), c3 = (1, 2)\<rparr>] 3
   = arctan (1 / 3)"
  (is "skew_angle [?a, ?b, ?c] 3 = _")
proof -
  have q: "quadrant_of ?a = 3" "quadrant_of ?b = 0" "quadrant_of ?c = 3"
    by (simp_all add: quadrant_of_def center_def coords_def get_quadrant_def)
  have w: "width ?a = 1" "width ?c = 3"
    by (simp_all add: width_def power2_eq_square sqrt9)
  have s: "slope ?a = 4 / 3" "slope ?c = 0"
    by (simp_all add: slope_def)
  have f: "filter (\<lambda>b. quadrant_of b = 3) [?a, ?b, ?c] = [?a, ?c]"
    using q by simp
  from skew_angle_weighted [of "[?a, ?b, ?c]" 3 ?a ?c] f w
  have "skew_angle [?a, ?b, ?c] 3 = arctan ((slope ?a * 1 + slope ?c * 3) / 4)"
    by blast
  then show ?thesis by (simp add: s)
qed

lemma rotate_corner_0: "rotate_corner 0 p = p"
  by (cases p) (simp add: rotate_corner_def)

lemma map_rotate_corner_0: "map (rotate_corner 0) ps = ps"
  by (induction ps) (simp_all add: rotate_corner_0)

lemma OCRBox_coords: "OCRBox (box_text b) (coords b) = Inr b"
  by (simp add: OCRBox_def coords_def)

lemma quadrant_of_less: "quadrant_of b < 4"
  by (simp add: quadrant_of_def get_quadrant_def split: prod.splits)

text \<open>
  C8. If the estimated skew angle of every quadrant is \<open>0\<close>, the corrected boxes are
  the input boxes: same coordinates (exactly, over the reals), same text, same order.
  Every angle is \<open>0\<close> when the sum of \<open>slope * width\<close> is \<open>0\<close> in every quadrant.
\<close>

theorem correct_slope_zero_skew:
  "((\<forall>q<4. skew_angle boxes q = 0) \<longrightarrow> correct_slope boxes = Inr boxes) \<and>
   ((\<forall>q<4. sum_list (map (\<lambda>b. slope b * width b) (filter (\<lambda>b. quadrant_of b = q) boxes)) = 0) \<longrightarrow>
      (\<forall>q<4. skew_angle boxes q = 0))"
proof -
  have unchanged: "correct_slope boxes = Inr boxes" if zero: "\<forall>q<4. skew_angle boxes q = 0"
  proof -
    have each: "correct_box boxes b = Inr b" for b
      using zero quadrant_of_less [of b]
      by (simp add: correct_box_def map_rotate_corner_0 OCRBox_coords)
    have "append_each (correct_box boxes) bs [] = Inr ([] @ map (\<lambda>x. projr (correct_box boxes x)) bs)" for bs
      by (rule append_each_Inr) (simp add: each)
    then show ?thesis by (simp add: correct_slope_def each)
  qed
  have "\<forall>q<4. skew_angle boxes q = 0"
    if "\<forall>q<4. sum_list (map (\<lambda>b. slope b * width b) (filter (\<lambda>b. quadrant_of b = q) boxes)) = 0"
    using that by (simp add: skew_angle_eq)
  with unchanged show ?thesis by blast
qed

theorem correct_slope_zero_skew_witness:
  "correct_slope
     [\<lparr>box_text = ''Units'', c0 = (0, 0), c1 = (1, 0), c2 = (1, 1 / 5), c3 = (0, 1 / 5)\<rparr>,
      \<lparr>box_text = ''Total'', c0 = (0, 1), c1 = (2, 1), c2 = (2, 2), c3 = (0, 2)\<rparr>]
   = Inr
     [\<lparr>box_text = ''Units'', c0 = (0, 0), c1 = (1, 0), c2 = (1, 1 / 5), c3 = (0, 1 / 5)\<rparr>,
      \<lparr>box_text = ''Total'', c0 = (0, 1), c1 = (2, 1), c2 = (2, 2), c3 = (0, 2)\<rparr>]"
  (is "correct_slope ?boxes = _")
proof -
  have "\<forall>b\<in>set ?boxes. slope b = 0"
    by (simp add: slope_def)
  then have "sum_list (map (\<lambda>b. slope b * width b) (filter (\<lambda>b. quadrant_of b = q) ?boxes)) = 0" for q
    by simp
  then show ?thesis
    using correct_slope_zero_skew [of ?boxes] by blast
qed

subsection \<open>Row clustering\<close>

lemma greedy_groups_ne: "greedy_groups tol g ys \<noteq> []"
  by (induction ys arbitrary: g) auto

lemma cluster_loop_groups:
  "cluster_loop tol ys (cl, g) =
     (cl @ map mean (butlast (greedy_groups tol g ys)), last (greedy_groups tol g ys))"
  by (induction ys arbitrary: cl g) (auto simp: greedy_groups_ne)

lemma cluster_loop_snoc:
  "cluster_loop tol (ys @ [y]) st =
     (case cluster_loop tol ys st of (clustered, current_group) \<Rightarrow>
        if \<bar>y - mean current_group\<bar> \<le> tol then (clustered, current_group @ [y])
        else (clustered @ [mean current_group], [y]))"
proof (induction ys arbitrary: st)
  case Nil
  show ?case by (cases st) simp
next
  case (Cons a ys)
  show ?case by (cases st) (simp add: Cons.IH)
qed

lemma cluster_rows_refines: "cluster_rows vs tol = cluster_spec vs tol"
proof (cases vs)
  case Nil
  then show ?thesis by (simp add: cluster_rows_def cluster_spec_def)
next
  case (Cons v rest)
  have "map mean (butlast G) @ [mean (last G)] = map mean G" if "G \<noteq> []" for G
    using that by (induction G rule: rev_induct) auto
  from this [OF greedy_groups_ne] show ?thesis
    by (simp add: Cons cluster_rows_def cluster_spec_def cluster_loop_groups)
qed

lemma concat_greedy_groups: "concat (greedy_groups tol g ys) = g @ ys"
  by (induction ys arbitrary: g) auto

lemma greedy_groups_nonempty: "g \<noteq> [] \<Longrightarrow> [] \<notin> set (greedy_groups tol g ys)"
  by (induction ys arbitrary: g) auto

lemma cluster_rows_pair:
  "cluster_rows [v, y] tol = (if \<bar>y - v\<bar> \<le> tol then [(v + y) / 2] else [v, y])"
  by (simp add: cluster_rows_def mean_def)

text \<open>
  C5. Clustering is one greedy pass. The loop, having consumed some values, treats the
  next value \<open>y\<close> thus: \<open>y\<close> joins the open group if and only if its distance from
  the mean of that group is at most the tolerance; otherwise the mean of the group is
  emitted and \<open>y\<close> starts a new group. The result is the list of the means of the
  groups of that pass (\<open>cluster_spec\<close>), the last group included: the groups are
  non-empty and, concatenated, give the input back. The empty input gives the empty
  output; a second value at distance exactly the tolerance from the first is merged
  with it, and one further away is not.
\<close>

theorem cluster_rows_greedy:
  "cluster_rows vs tol = cluster_spec vs tol \<and>
   cluster_rows [] tol = [] \<and>
   cluster_loop tol (ys @ [y]) st =
     (case cluster_loop tol ys st of (clustered, current_group) \<Rightarrow>
        if \<bar>y - mean current_group\<bar> \<le> tol then (clustered, current_group @ [y])
        else (clustered @ [mean current_group], [y])) \<and>
   (vs \<noteq> [] \<longrightarrow>
      (\<exists>groups. concat groups = vs \<and> [] \<notin> set groups \<and> groups \<noteq> [] \<and>
         cluster_rows vs tol = map mean groups)) \<and>
   (\<bar>y - v\<bar> \<le> tol \<longrightarrow> cluster_rows [v, y] tol = [(v + y) / 2]) \<and>
   (\<bar>y - v\<bar> > tol \<longrightarrow> cluster_rows [v, y] tol = [v, y])"
proof -
  have groups: "\<exists>groups. concat groups = vs \<and> [] \<notin> set groups \<and> groups \<noteq> [] \<and>
         cluster_rows vs tol = map mean groups" if "vs \<noteq> []"
  proof -
    from that obtain v rest where vs: "vs = v # rest" by (cases vs) auto
    let ?G = "greedy_groups tol [v] rest"
    have "concat ?G = vs" by (simp add: concat_greedy_groups vs)
    moreover have "[] \<notin> set ?G" by (rule greedy_groups_nonempty) simp
    moreover have "?G \<noteq> []" by (rule greedy_groups_ne)
    moreover have "cluster_rows vs tol = map mean ?G"
      by (simp add: cluster_rows_refines cluster_spec_def vs)
    ultimately show ?thesis by blast
  qed
  have pair: "(\<bar>y - v\<bar> \<le> tol \<longrightarrow> cluster_rows [v, y] tol = [(v + y) / 2]) \<and>
     (\<bar>y - v\<bar> > tol \<longrightarrow> cluster_rows [v, y] tol = [v, y])"
    by (simp add: cluster_rows_pair)
  have empty: "cluster_rows [] tol = []"
    by (simp add: cluster_rows_def)
  from cluster_rows_refines [of vs tol] empty cluster_loop_snoc [of tol ys y st] groups pair
  show ?thesis by blast
qed

theorem cluster_rows_greedy_witness:
  "cluster_rows [11 / 100, 12 / 100, 13 / 100, 21 / 100, 22 / 100] (2 / 100) = [12 / 100, 215 / 1000] \<and>
   cluster_rows [1 / 10, 12 / 100] (2 / 100) = [11 / 100] \<and>
   cluster_rows [1 / 10, 13 / 100] (2 / 100) = [1 / 10, 13 / 100]"
  using cluster_rows_greedy [of "[11 / 100, 12 / 100, 13 / 100, 21 / 100, 22 / 100]" "2 / 100"]
    cluster_rows_greedy [of _ "2 / 100" _ "12 / 100" _ "1 / 10"]
    cluster_rows_greedy [of _ "2 / 100" _ "13 / 100" _ "1 / 10"]
  by (simp add: cluster_spec_def mean_def)

subsection \<open>Label matching\<close>

lemma str_in_sublist: "str_in a b \<longleftrightarrow> sublist a b"
  by (induction b) (auto simp: sublist_Cons_right)

lemma str_in_iff: "str_in a b \<longleftrightarrow> (\<exists>p s. b = p @ a @ s)"
  by (simp add: str_in_sublist sublist_def)

lemma lower_Nil_iff: "lower s = [] \<longleftrightarrow> s = []"
  by (simp add: lower_def)

lemma sample_lower:
  "lower (box_text units_header) = ''units''"
  "lower (box_text total_header) = ''total''"
  "lower (box_text merged_header) = ''units pieces''"
  "lower (box_text item_box) = ''7''"
  "lower (box_text total_footer) = ''total''"
  "lower (box_text charge_footer) = ''total charge''"
  "lower ''Units'' = ''units''"
  "lower ''Pieces'' = ''pieces''"
  "lower ''Total'' = ''total''"
  "lower ''Weight'' = ''weight''"
  "lower ''Total Charge'' = ''total charge''"
  "lower ''Units Pieces'' = ''units pieces''"
  by (simp_all add: lower_def lower_char_def units_header_def total_header_def
      merged_header_def item_box_def total_footer_def charge_footer_def)

text \<open>
  C1. A box is a header box, one that gives a column edge, if and only if its
  text is not empty and its lower-cased text occurs in some lower-cased header label.
  The header's upper bound is taken from the boxes that pass the opposite test: some
  lower-cased header label occurs in the box's lower-cased text. A box that passes
  either test is in containment with a label in one of the two directions; the converse
  fails.
\<close>

theorem header_boxes_iff:
  "(b \<in> set (header_boxes boxes headers) \<longleftrightarrow>
      b \<in> set boxes \<and> box_text b \<noteq> [] \<and>
      (\<exists>h\<in>set headers. \<exists>p s. lower h = p @ lower (box_text b) @ s)) \<and>
   (has_label headers b \<longleftrightarrow>
      (\<exists>h\<in>set headers. \<exists>p s. lower (box_text b) = p @ lower h @ s)) \<and>
   (b \<in> set (header_boxes boxes headers) \<or> has_label headers b \<longrightarrow>
      (\<exists>h\<in>set headers. str_in (lower (box_text b)) (lower h) \<or>
                        str_in (lower h) (lower (box_text b))))"
proof -
  have col: "b \<in> set (header_boxes boxes headers) \<longleftrightarrow>
      b \<in> set boxes \<and> box_text b \<noteq> [] \<and>
      (\<exists>h\<in>set headers. \<exists>p s. lower h = p @ lower (box_text b) @ s)"
    by (auto simp: header_boxes_def list_ex_iff lower_Nil_iff str_in_iff)
  have top: "has_label headers b \<longleftrightarrow>
      (\<exists>h\<in>set headers. \<exists>p s. lower (box_text b) = p @ lower h @ s)"
    by (simp add: has_label_def list_ex_iff str_in_iff)
  have either: "b \<in> set (header_boxes boxes headers) \<or> has_label headers b \<longrightarrow>
      (\<exists>h\<in>set headers. str_in (lower (box_text b)) (lower h) \<or>
                        str_in (lower h) (lower (box_text b)))"
    by (auto simp: header_boxes_def has_label_def list_ex_iff)
  from col top either show ?thesis by blast
qed

theorem header_boxes_iff_witness:
  "units_header \<in> set (header_boxes [units_header, merged_header] [''Units'', ''Pieces'']) \<and>
   merged_header \<notin> set (header_boxes [units_header, merged_header] [''Units'', ''Pieces'']) \<and>
   has_label [''Units'', ''Pieces''] merged_header"
proof -
  have "lower ''Units'' = [] @ lower (box_text units_header) @ []"
    by (simp add: sample_lower)
  moreover have "box_text units_header \<noteq> []"
    by (simp add: units_header_def)
  ultimately have "units_header \<in> set (header_boxes [units_header, merged_header] [''Units'', ''Pieces''])"
    using header_boxes_iff [of units_header "[units_header, merged_header]" "[''Units'', ''Pieces'']"]
    by (simp del: append_Nil append_Nil2) blast
  moreover have "merged_header \<notin> set (header_boxes [units_header, merged_header] [''Units'', ''Pieces''])"
    by (simp add: header_boxes_def sample_lower units_header_def merged_header_def)
  moreover have "has_label [''Units'', ''Pieces''] merged_header"
    by (simp add: has_label_def sample_lower)
  ultimately show ?thesis by blast
qed

text \<open>
  The label \<^verbatim>\<open>Units\<close> occurs in the text \<^verbatim>\<open>Units Pieces\<close>, yet that box is no
  header box; the text \<^verbatim>\<open>Total\<close> occurs in the label \<^verbatim>\<open>Total Charge\<close>, yet that box
  does not pass the test of the vertical bounds.
\<close>

theorem header_boxes_counterexample:
  "\<not> (merged_header \<in> set (header_boxes [merged_header] [''Units'', ''Pieces'']) \<longleftrightarrow>
      list_ex (\<lambda>h. str_in (lower (box_text merged_header)) (lower h) \<or>
                    str_in (lower h) (lower (box_text merged_header))) [''Units'', ''Pieces'']) \<and>
   \<not> (has_label [''Total Charge''] total_header \<longleftrightarrow>
      list_ex (\<lambda>h. str_in (lower (box_text total_header)) (lower h) \<or>
                    str_in (lower h) (lower (box_text total_header))) [''Total Charge''])"
  by (simp add: header_boxes_def has_label_def sample_lower)

subsection \<open>Grid reconstruction\<close>

lemma py_min_Inl: "py_min xs = Inl e \<longleftrightarrow> xs = [] \<and> e = ValueError (EmptySequence ''min'')"
  by (auto simp: py_min_def split: list.splits)

lemma py_max_Inl: "py_max xs = Inl e \<longleftrightarrow> xs = [] \<and> e = ValueError (EmptySequence ''max'')"
  by (auto simp: py_max_def split: list.splits)

lemma py_min_Nil: "py_min [] = Inl (ValueError (EmptySequence ''min''))"
  by (simp add: py_min_def)

lemma py_max_Nil: "py_max [] = Inl (ValueError (EmptySequence ''max''))"
  by (simp add: py_max_def)

lemma py_min_Inr: "xs \<noteq> [] \<Longrightarrow> \<exists>m. py_min xs = Inr m"
  by (cases xs) (simp_all add: py_min_def)

lemma py_max_Inr: "xs \<noteq> [] \<Longrightarrow> \<exists>m. py_max xs = Inr m"
  by (cases xs) (simp_all add: py_max_def)

lemma concat_coords_Nil:
  "concat (map (\<lambda>b. map f (coords b)) bs) = [] \<longleftrightarrow> bs = []"
  by (cases bs) (simp_all add: coords_def)

lemma length_linspace: "length (linspace a b n) = n"
  by (simp add: linspace_def)

lemma grid_cases:
  "plot_table_grid_auto boxes headers footers =
     (if boxes = [] \<or> filter (has_label headers) boxes = [] then Inl (ValueError (EmptySequence ''min''))
      else if filter (has_label footers) boxes = [] then Inl (ValueError (EmptySequence ''max''))
      else Inr \<lparr>col_edges = column_edges boxes headers
                   (projr (py_min (concat (map (\<lambda>b. map fst (coords b)) boxes))))
                   (projr (py_max (concat (map (\<lambda>b. map fst (coords b)) boxes)))),
               row_edges = linspace
                   (projr (py_min (concat (map (\<lambda>b. map snd (coords b)) (filter (has_label headers) boxes)))))
                   (projr (py_max (concat (map (\<lambda>b. map snd (coords b)) (filter (has_label footers) boxes)))))
                   (length (cluster_rows (raw_item_rows boxes
                      (projr (py_min (concat (map (\<lambda>b. map snd (coords b)) (filter (has_label headers) boxes)))))
                      (projr (py_max (concat (map (\<lambda>b. map snd (coords b)) (filter (has_label footers) boxes))))))
                      (2 / 100)) + 3),
               item_rows = cluster_rows (raw_item_rows boxes
                      (projr (py_min (concat (map (\<lambda>b. map snd (coords b)) (filter (has_label headers) boxes)))))
                      (projr (py_max (concat (map (\<lambda>b. map snd (coords b)) (filter (has_label footers) boxes))))))
                      (2 / 100)\<rparr>)"
proof (cases "boxes = []")
  case True
  then show ?thesis by (simp add: plot_table_grid_auto_def Let_def py_min_Nil bind_err_def)
next
  case ne: False
  obtain x_min x_max y_min y_max where
    xy: "py_min (concat (map (\<lambda>b. map fst (coords b)) boxes)) = Inr x_min"
        "py_max (concat (map (\<lambda>b. map fst (coords b)) boxes)) = Inr x_max"
        "py_min (concat (map (\<lambda>b. map snd (coords b)) boxes)) = Inr y_min"
        "py_max (concat (map (\<lambda>b. map snd (coords b)) boxes)) = Inr y_max"
    using ne py_min_Inr py_max_Inr concat_coords_Nil by metis
  show ?thesis
  proof (cases "filter (has_label headers) boxes = []")
    case True
    then show ?thesis
      using ne by (simp add: plot_table_grid_auto_def Let_def xy bind_err_def py_min_Nil)
  next
    case hs: False
    then obtain header_top where
      ht: "py_min (concat (map (\<lambda>b. map snd (coords b)) (filter (has_label headers) boxes))) = Inr header_top"
      using py_min_Inr concat_coords_Nil by metis
    show ?thesis
    proof (cases "filter (has_label footers) boxes = []")
      case True
      then show ?thesis
        using ne hs by (simp add: plot_table_grid_auto_def Let_def xy ht bind_err_def py_max_Nil)
    next
      case fs: False
      then obtain footer_bottom where
        fb: "py_max (concat (map (\<lambda>b. map snd (coords b)) (filter (has_label footers) boxes))) = Inr footer_bottom"
        using py_max_Inr concat_coords_Nil by metis
      show ?thesis
        using ne hs fs by (simp add: plot_table_grid_auto_def xy ht fb bind_err_def Let_def numeral_3_eq_3)
    qed
  qed
qed


lemma sample_labels:
  "has_label [''Units'', ''Pieces''] merged_header"
  "\<not> has_label [''Units'', ''Pieces''] item_box"
  "\<not> has_label [''Units'', ''Pieces''] charge_footer"
  "\<not> has_label [''Total Charge''] merged_header"
  "\<not> has_label [''Total Charge''] item_box"
  "has_label [''Total Charge''] charge_footer"
  "\<not> has_label [''Weight''] merged_header"
  "\<not> has_label [''Weight''] item_box"
  "\<not> has_label [''Weight''] charge_footer"
  "has_label [''Units'', ''Total''] units_header"
  "has_label [''Units'', ''Total''] total_header"
  "\<not> has_label [''Units'', ''Total''] item_box"
  "has_label [''Units'', ''Total''] total_footer"
  "has_label [''Units'', ''Total''] charge_footer"
  "\<not> has_label [''Total Charge''] units_header"
  "\<not> has_label [''Total Charge''] total_header"
  "\<not> has_label [''Total''] units_header"
  "has_label [''Total''] total_header"
  "\<not> has_label [''Total''] item_box"
  "has_label [''Total''] total_footer"
  by (simp_all add: has_label_def sample_lower)

lemma sample_header_boxes:
  "header_boxes [merged_header, item_box, charge_footer] [''Units'', ''Pieces''] = []"
  "header_boxes [units_header, total_header, item_box, charge_footer] [''Units'', ''Total'']
     = [units_header, total_header]"
  "header_boxes [units_header, total_header, item_box, total_footer] [''Units'', ''Total'']
     = [units_header, total_header, total_footer]"
  by (simp_all add: header_boxes_def sample_lower)

lemma sample_coords:
  "coords units_header = [(1 / 10, 1 / 10), (1 / 5, 1 / 10), (1 / 5, 13 / 100), (1 / 10, 13 / 100)]"
  "coords total_header = [(3 / 10, 1 / 10), (2 / 5, 1 / 10), (2 / 5, 13 / 100), (3 / 10, 13 / 100)]"
  "coords merged_header = [(1 / 10, 1 / 10), (2 / 5, 1 / 10), (2 / 5, 13 / 100), (1 / 10, 13 / 100)]"
  "coords item_box = [(1 / 10, 3 / 10), (1 / 5, 3 / 10), (1 / 5, 17 / 50), (1 / 10, 17 / 50)]"
  "coords total_footer = [(1 / 10, 13 / 20), (1 / 5, 13 / 20), (1 / 5, 7 / 10), (1 / 10, 7 / 10)]"
  "coords charge_footer = [(1 / 10, 13 / 20), (3 / 10, 13 / 20), (3 / 10, 7 / 10), (1 / 10, 7 / 10)]"
  by (simp_all add: coords_def units_header_def total_header_def merged_header_def item_box_def
      total_footer_def charge_footer_def)

lemma sample_centers:
  "snd (center units_header) = 23 / 200"
  "snd (center total_header) = 23 / 200"
  "snd (center merged_header) = 23 / 200"
  "snd (center item_box) = 8 / 25"
  "snd (center total_footer) = 27 / 40"
  "snd (center charge_footer) = 27 / 40"
  by (simp_all add: center_def sample_coords)

lemma sample_edges:
  "box_min_x units_header = 1 / 10" "box_max_x units_header = 1 / 5"
  "box_min_x total_header = 3 / 10" "box_max_x total_header = 2 / 5"
  "box_min_x total_footer = 1 / 10" "box_max_x total_footer = 1 / 5"
  by (simp_all add: box_min_x_def box_max_x_def sample_coords)

lemma py_round_sample: "py_round (8 / 25) 3 = 8 / 25"
  by (simp add: py_round_def)

lemma sample_raw_item_rows:
  "raw_item_rows [merged_header, item_box, charge_footer] (1 / 10) (7 / 10) = [8 / 25]"
  "raw_item_rows [units_header, total_header, item_box, charge_footer] (1 / 10) (7 / 10) = [8 / 25]"
  "raw_item_rows [units_header, total_header, item_box, total_footer] (1 / 10) (7 / 10) = [8 / 25]"
  by (simp_all add: raw_item_rows_def sample_centers py_round_sample)

lemma cluster_rows_single: "cluster_rows [y] tol = [y]"
  by (simp add: cluster_rows_def mean_def)


lemma linspace4: "linspace a b 4 = [a, a + (b - a) / 3, a + 2 * ((b - a) / 3), b]"
  by (simp add: linspace_def upt_rec diff_divide_distrib)



lemma sample_grid:
  "plot_table_grid_auto [units_header, total_header, item_box, charge_footer]
       [''Units'', ''Total''] [''Total Charge'']
     = Inr \<lparr>col_edges = [1 / 10, 3 / 10, 2 / 5], row_edges = [1 / 10, 3 / 10, 1 / 2, 7 / 10],
             item_rows = [8 / 25]\<rparr>"
  by (simp add: grid_cases sample_labels sample_coords py_min_def py_max_def sample_raw_item_rows
      cluster_rows_single column_edges_def sample_header_boxes sample_edges linspace4)

lemma sample_extra_edge:
  "plot_table_grid_auto [units_header, total_header, item_box, total_footer]
       [''Units'', ''Total''] [''Total'']
     = Inr \<lparr>col_edges = [1 / 10, 1 / 10, 3 / 10, 2 / 5], row_edges = [1 / 10, 3 / 10, 1 / 2, 7 / 10],
             item_rows = [8 / 25]\<rparr>"
  by (simp add: grid_cases sample_labels sample_coords py_min_def py_max_def sample_raw_item_rows
      cluster_rows_single column_edges_def sample_header_boxes sample_edges linspace4)




text \<open>
  C3. When reconstruction returns a grid with \<open>k\<close> clustered item rows, the
  grid has exactly \<open>k + 3\<close> row edges, evenly spaced from the header top to the footer
  bottom. When there is a header box, the column edges are the minimum x of each header
  box and the one greatest x among the header boxes, sorted ascending: one edge more
  than there are header boxes. That is \<open>length headers + 1\<close> edges when there are as
  many header boxes as header labels.
\<close>

theorem grid_edge_counts:
  assumes "plot_table_grid_auto boxes headers footers = Inr g"
  shows "length (row_edges g) = length (item_rows g) + 3 \<and>
    (\<exists>header_top footer_bottom.
       py_min (concat (map (\<lambda>b. map snd (coords b)) (filter (has_label headers) boxes))) = Inr header_top \<and>
       py_max (concat (map (\<lambda>b. map snd (coords b)) (filter (has_label footers) boxes))) = Inr footer_bottom \<and>
       item_rows g = cluster_rows (raw_item_rows boxes header_top footer_bottom) (2 / 100) \<and>
       row_edges g = linspace header_top footer_bottom (length (item_rows g) + 3)) \<and>
    (header_boxes boxes headers \<noteq> [] \<longrightarrow>
       col_edges g = sort (map box_min_x (header_boxes boxes headers) @
                           [Max (set (map box_max_x (header_boxes boxes headers)))]) \<and>
       length (col_edges g) = length (header_boxes boxes headers) + 1) \<and>
    (length (header_boxes boxes headers) = length headers \<longrightarrow>
       length (col_edges g) = length headers + 1)"
proof -
  from assms have ne: "boxes \<noteq> []" and hs: "filter (has_label headers) boxes \<noteq> []"
    and fs: "filter (has_label footers) boxes \<noteq> []"
    by (auto simp: grid_cases split: if_splits)
  obtain header_top footer_bottom where
    ht: "py_min (concat (map (\<lambda>b. map snd (coords b)) (filter (has_label headers) boxes))) = Inr header_top"
    and fb: "py_max (concat (map (\<lambda>b. map snd (coords b)) (filter (has_label footers) boxes))) = Inr footer_bottom"
    using hs fs py_min_Inr py_max_Inr concat_coords_Nil by metis
  define x_min where "x_min = projr (py_min (concat (map (\<lambda>b. map fst (coords b)) boxes)))"
  define x_max where "x_max = projr (py_max (concat (map (\<lambda>b. map fst (coords b)) boxes)))"
  from assms ne hs fs have
    g: "g = \<lparr>col_edges = column_edges boxes headers x_min x_max,
             row_edges = linspace header_top footer_bottom
               (length (cluster_rows (raw_item_rows boxes header_top footer_bottom) (2 / 100)) + 3),
             item_rows = cluster_rows (raw_item_rows boxes header_top footer_bottom) (2 / 100)\<rparr>"
    by (simp add: grid_cases ht fb x_min_def x_max_def)
  have rows: "row_edges g = linspace header_top footer_bottom
             (length (cluster_rows (raw_item_rows boxes header_top footer_bottom) (2 / 100)) + 3)"
    and items: "item_rows g = cluster_rows (raw_item_rows boxes header_top footer_bottom) (2 / 100)"
    and c: "col_edges g = column_edges boxes headers x_min x_max"
    by (simp_all add: g)
  have n_rows: "length (row_edges g) = length (item_rows g) + 3"
    by (simp add: rows items length_linspace)
  have by_headers: "header_boxes boxes headers \<noteq> [] \<longrightarrow>
       col_edges g = sort (map box_min_x (header_boxes boxes headers) @
                           [Max (set (map box_max_x (header_boxes boxes headers)))]) \<and>
       length (col_edges g) = length (header_boxes boxes headers) + 1"
    by (simp add: c column_edges_def Let_def)
  have n_cols: "length (header_boxes boxes headers) = length headers \<longrightarrow>
       length (col_edges g) = length headers + 1"
    by (simp add: c column_edges_def Let_def length_linspace)
  from n_rows ht fb items rows by_headers n_cols show ?thesis
    by (simp del: One_nat_def)
qed

theorem grid_edge_counts_witness:
  "plot_table_grid_auto [units_header, total_header, item_box, charge_footer]
       [''Units'', ''Total''] [''Total Charge'']
     = Inr \<lparr>col_edges = [1 / 10, 3 / 10, 2 / 5], row_edges = [1 / 10, 3 / 10, 1 / 2, 7 / 10],
             item_rows = [8 / 25]\<rparr> \<and>
   length [1 / 10, 3 / 10, 1 / 2, 7 / 10 :: real] = length [8 / 25 :: real] + 3 \<and>
   length [1 / 10, 3 / 10, 2 / 5 :: real] = length [''Units'', ''Total''] + 1"
  using grid_edge_counts [OF sample_grid]
  by (simp add: sample_grid)

text \<open>
  Every header label is covered by a header box, but the footer cell \<^verbatim>\<open>Total\<close> is a
  header box too: four column edges for two labels.
\<close>

theorem grid_edge_counts_counterexample:
  "plot_table_grid_auto [units_header, total_header, item_box, total_footer]
       [''Units'', ''Total''] [''Total'']
     = Inr \<lparr>col_edges = [1 / 10, 1 / 10, 3 / 10, 2 / 5], row_edges = [1 / 10, 3 / 10, 1 / 2, 7 / 10],
             item_rows = [8 / 25]\<rparr> \<and>
   list_all (\<lambda>h. list_ex (\<lambda>b. str_in (lower (box_text b)) (lower h))
        (header_boxes [units_header, total_header, item_box, total_footer] [''Units'', ''Total'']))
     [''Units'', ''Total''] \<and>
   length [1 / 10, 1 / 10, 3 / 10, 2 / 5 :: real] \<noteq> length [''Units'', ''Total''] + 1"
  by (simp add: sample_extra_edge sample_header_boxes sample_lower)

end
